theory Spec2Isabelle
  imports Complex_Main
begin

section \<open>Numbers and strings\<close>

text \<open>
  JavaScript numbers are doubles. World positions (finite numbers) are modelled as
  \<open>real\<close>, with exact arithmetic in place of rounding; the results of \<open>Math.floor\<close>
  (chunk coordinates) are modelled as \<open>int\<close>, with exact sums. A double holds every
  integer up to \<open>2^53\<close> in magnitude exactly, and a template literal renders such an
  integer as its plain decimal numeral, with a leading \<open>-\<close> when negative;
  \<open>numberToString\<close> is that rendering. Model and program agree as long as the chunk
  coordinates stay in that range; beyond it the program rounds where the model does not.
\<close>

definition digitChar :: "nat \<Rightarrow> char" where
  "digitChar d = ''0123456789'' ! d"

definition isDigit :: "char \<Rightarrow> bool" where
  "isDigit c = (c \<in> set ''0123456789'')"

text \<open>The value of a decimal digit is its place in \<open>0123456789\<close>.\<close>

definition digitValue :: "char \<Rightarrow> nat" where
  "digitValue c = length (takeWhile (\<lambda>d. d \<noteq> c) ''0123456789'')"

fun natToString :: "nat \<Rightarrow> string" where
  "natToString n = (if n < 10 then [digitChar n]
     else natToString (n div 10) @ [digitChar (n mod 10)])"

declare natToString.simps [simp del]

definition numberToString :: "int \<Rightarrow> string" where
  "numberToString i = (if i < 0 then CHR ''-'' # natToString (nat (- i))
     else natToString (nat i))"

text \<open>
  \<open>String.prototype.split\<close> with a one-character separator: the pieces between the
  separators, \<open>[""]\<close> for the empty string.
\<close>

fun split_str :: "char \<Rightarrow> string \<Rightarrow> string list" where
  "split_str sep [] = [[]]"
| "split_str sep (c # cs) = (if c = sep then [] # split_str sep cs
     else (case split_str sep cs of [] \<Rightarrow> [[c]] | p # ps \<Rightarrow> (c # p) # ps))"

definition digitsValue :: "string \<Rightarrow> nat" where
  "digitsValue ds = foldl (\<lambda>acc c. 10 * acc + digitValue c) 0 ds"

definition isDigits :: "string \<Rightarrow> bool" where
  "isDigits ds = (ds \<noteq> [] \<and> list_all isDigit ds)"

text \<open>
  \<open>Number(str)\<close> on the strings the registry can hold: the empty string is 0, an
  optionally signed run of decimal digits is its value. \<open>None\<close> stands for every other
  string (\<open>NaN\<close>, or a literal with a fraction, an exponent, a radix prefix or white
  space, which no chunk key contains); the theorems below use it only on well-formed keys.
\<close>

definition Number :: "string \<Rightarrow> int option" where
  "Number str = (case str of
       [] \<Rightarrow> Some 0
     | c # cs \<Rightarrow>
         if c = CHR ''-'' then (if isDigits cs then Some (- int (digitsValue cs)) else None)
         else if c = CHR ''+'' then (if isDigits cs then Some (int (digitsValue cs)) else None)
         else if isDigits str then Some (int (digitsValue str)) else None)"

section \<open>Scene objects\<close>

record vec3 =
  vec_x :: real
  vec_y :: real
  vec_z :: real

datatype geometry =
    BoxGeometry real real real
  | CylinderGeometry real real real nat
  | CapsuleGeometry real real nat nat

record material =
  color :: nat
  flatShading :: bool

text \<open>
  A \<open>THREE.Mesh\<close>: its rotation (an Euler triple) is kept as a \<open>vec3\<close>. A new mesh sits
  at the origin, unrotated, without children.
\<close>

datatype mesh =
  Mesh (geometry: geometry) (material: material) (position: vec3) (rotation: vec3)
    (children: "mesh list")

definition newMesh :: "geometry \<Rightarrow> material \<Rightarrow> mesh" where
  "newMesh geo mat =
     Mesh geo mat \<lparr>vec_x = 0, vec_y = 0, vec_z = 0\<rparr> \<lparr>vec_x = 0, vec_y = 0, vec_z = 0\<rparr> []"

definition setPosition :: "vec3 \<Rightarrow> mesh \<Rightarrow> mesh" where
  "setPosition p m = Mesh (geometry m) (material m) p (rotation m) (children m)"

definition setRotation :: "vec3 \<Rightarrow> mesh \<Rightarrow> mesh" where
  "setRotation r m = Mesh (geometry m) (material m) (position m) r (children m)"

definition addChild :: "mesh \<Rightarrow> mesh \<Rightarrow> mesh" where
  "addChild c m = Mesh (geometry m) (material m) (position m) (rotation m) (children m @ [c])"

text \<open>
  Objects created while the program runs (chunk groups, vehicle meshes) have an identity:
  they live in a store and are held by reference. The scene's children are references;
  the lights and the player's mesh, added once by \<open>init\<close>, are named nodes.
\<close>

datatype obj = MeshObj mesh | GroupObj "mesh list"

datatype node = AmbientLightNode | DirLightNode | PlayerNode | Ref nat

text \<open>
  An entry of \<open>playerStructures\<close>: the four clones \<open>saveStructure\<close> stores. A clone is
  a fresh object equal in value to the original, so the entry holds values, not
  references into the store.
\<close>

record "structure" =
  st_geometry :: geometry
  st_material :: material
  st_position :: vec3
  st_rotation :: vec3

section \<open>Program state\<close>

text \<open>
  The module's variables after \<open>init\<close> has created the player's mesh. \<open>Math.random()\<close>
  and \<open>Date.now()\<close> read from two sequences supplied by the environment; the counters
  say how many values have been read. The key of a structure is the string
  \<open>Date.now() + "_" + Math.random()\<close>; number rendering is injective and has no \<open>_\<close>,
  so the key is kept as the pair of the two numbers.

  \<open>keys\<close> and \<open>vehicles\<close> are declared by \<open>const keys = {}\<close> and
  \<open>let vehicles = []\<close> at lines 54 and 63 of \<open>src/main.js\<close>, below the calls
  \<open>init(); animate();\<close> of lines 13 and 14. Until its declaration has been evaluated a
  binding is not initialised, and reading it throws a \<open>ReferenceError\<close>; \<open>None\<close> is
  the binding that is not initialised.
\<close>

record world =
  player_x :: real
  player_y :: real
  player_z :: real
  player_mesh :: mesh
  chunks :: "(string \<times> nat) list"
  playerStructures :: "((int \<times> real) \<times> structure) list"
  chunkSize :: real
  loadedRadius :: int
  scene :: "node list"
  keys :: "(string \<Rightarrow> bool) option"
  vehicles :: "nat list option"
  heap :: "nat \<Rightarrow> obj option"
  nextRef :: nat
  randomSeq :: "nat \<Rightarrow> real"
  randomCalls :: nat
  dateSeq :: "nat \<Rightarrow> int"
  dateCalls :: nat

text \<open>
  How a call ends: it returns, or an exception leaves it. Either way the module's
  variables are as the call left them.
\<close>

datatype outcome = Completed world | Thrown world

definition then_do :: "outcome \<Rightarrow> (world \<Rightarrow> outcome) \<Rightarrow> outcome" where
  "then_do r f = (case r of Completed s \<Rightarrow> f s | Thrown s \<Rightarrow> Thrown s)"

definition worldOf :: "outcome \<Rightarrow> world" where
  "worldOf r = (case r of Completed s \<Rightarrow> s | Thrown s \<Rightarrow> s)"

definition threw :: "outcome \<Rightarrow> bool" where
  "threw r = (case r of Completed s \<Rightarrow> False | Thrown s \<Rightarrow> True)"

definition Math_random :: "world \<Rightarrow> real \<times> world" where
  "Math_random s = (randomSeq s (randomCalls s), s\<lparr>randomCalls := Suc (randomCalls s)\<rparr>)"

definition Date_now :: "world \<Rightarrow> int \<times> world" where
  "Date_now s = (dateSeq s (dateCalls s), s\<lparr>dateCalls := Suc (dateCalls s)\<rparr>)"

subsection \<open>The operations of a JavaScript Map, in insertion order\<close>

definition map_has :: "'k \<Rightarrow> ('k \<times> 'v) list \<Rightarrow> bool" where
  "map_has k m = (k \<in> set (map fst m))"

definition map_get :: "'k \<Rightarrow> ('k \<times> 'v) list \<Rightarrow> 'v option" where
  "map_get k m = map_of m k"

fun map_set :: "'k \<Rightarrow> 'v \<Rightarrow> ('k \<times> 'v) list \<Rightarrow> ('k \<times> 'v) list" where
  "map_set k v [] = [(k, v)]"
| "map_set k v (p # ps) = (if fst p = k then (k, v) # ps else p # map_set k v ps)"

definition map_delete :: "'k \<Rightarrow> ('k \<times> 'v) list \<Rightarrow> ('k \<times> 'v) list" where
  "map_delete k m = filter (\<lambda>p. fst p \<noteq> k) m"

section \<open>Vehicles and structures\<close>

definition saveStructure :: "mesh \<Rightarrow> world \<Rightarrow> world" where
  "saveStructure m s =
     (let (t, s1) = Date_now s;
          (r, s2) = Math_random s1
      in s2\<lparr>playerStructures :=
           map_set (t, r)
             \<lparr>st_geometry = geometry m, st_material = material m,
              st_position = position m, st_rotation = rotation m\<rparr>
             (playerStructures s2)\<rparr>)"

text \<open>The key the next call of \<open>saveStructure\<close> will use.\<close>

definition nextStructureKey :: "world \<Rightarrow> int \<times> real" where
  "nextStructureKey s = (dateSeq s (dateCalls s), randomSeq s (randomCalls s))"

text \<open>The mesh the \<open>switch\<close> of \<open>buildVehicle\<close> leaves in \<open>mesh\<close>; \<open>None\<close> is
  \<open>undefined\<close>. The colours are \<open>0xffff00\<close> and \<open>0x0000ff\<close>.\<close>

definition vehicleMesh :: "string \<Rightarrow> world \<Rightarrow> mesh option" where
  "vehicleMesh vtype s =
     (if vtype = ''plane'' then
        (let mesh = newMesh (BoxGeometry 2 0.4 4) \<lparr>color = 16776960, flatShading = False\<rparr>;
             wing = newMesh (BoxGeometry 4 0.1 1) \<lparr>color = 16776960, flatShading = False\<rparr>;
             wing1 = setPosition ((position wing)\<lparr>vec_y := 0, vec_z := 0\<rparr>) wing;
             mesh1 = addChild wing1 mesh
         in Some (setPosition
              \<lparr>vec_x = player_x s + 2, vec_y = player_y s + 1, vec_z = player_z s\<rparr> mesh1))
      else if vtype = ''boat'' then
        (let mesh = newMesh (CylinderGeometry 1 1 0.5 8) \<lparr>color = 255, flatShading = False\<rparr>;
             mesh1 = setRotation ((rotation mesh)\<lparr>vec_z := pi / 2\<rparr>) mesh
         in Some (setPosition
              \<lparr>vec_x = player_x s + 2, vec_y = 0.25, vec_z = player_z s\<rparr> mesh1))
      else None)"

text \<open>\<open>scene.add(mesh); vehicles.push(mesh); saveStructure(mesh)\<close>: the read of
  \<open>vehicles\<close> throws while the binding is not initialised, after the mesh has been
  created and added to the scene and before \<open>saveStructure\<close> is called.\<close>

definition buildVehicle :: "string \<Rightarrow> world \<Rightarrow> outcome" where
  "buildVehicle vtype s =
     (case vehicleMesh vtype s of
        None \<Rightarrow> Completed s
      | Some m \<Rightarrow>
          (let r = nextRef s;
               s1 = s\<lparr>heap := (heap s)(r \<mapsto> MeshObj m), nextRef := Suc r\<rparr>;
               s2 = s1\<lparr>scene := scene s1 @ [Ref r]\<rparr>
           in case vehicles s2 of
                None \<Rightarrow> Thrown s2
              | Some vs \<Rightarrow> Completed (saveStructure m (s2\<lparr>vehicles := Some (vs @ [r])\<rparr>))))"

text \<open>One round of the \<open>forEach\<close> of \<open>animateVehicles\<close>: the vehicle's own position
  object is changed in place. \<open>vehicles\<close> only ever holds references to meshes.
  \<open>animateVehicles\<close> throws at \<open>vehicles.forEach\<close> while \<open>vehicles\<close> is not
  initialised.\<close>

definition hoverVehicle :: "real \<Rightarrow> nat \<Rightarrow> world \<Rightarrow> world" where
  "hoverVehicle delta v s =
     (let (t, s1) = Date_now s
      in case heap s1 v of
           Some (MeshObj m) \<Rightarrow>
             s1\<lparr>heap := (heap s1)(v \<mapsto> MeshObj (setPosition
                ((position m)\<lparr>vec_y := vec_y (position m) + sin (real_of_int t * 0.001) * delta\<rparr>)
                m))\<rparr>
         | _ \<Rightarrow> s1)"

definition animateVehicles :: "real \<Rightarrow> world \<Rightarrow> outcome" where
  "animateVehicles delta s =
     (case vehicles s of
        None \<Rightarrow> Thrown s
      | Some vs \<Rightarrow> Completed (fold (hoverVehicle delta) vs s))"

section \<open>Player movement\<close>

definition movePlayerMesh :: "real \<Rightarrow> real \<Rightarrow> world \<Rightarrow> world" where
  "movePlayerMesh dx dz s =
     s\<lparr>player_mesh := setPosition
          ((position (player_mesh s))\<lparr>vec_x := vec_x (position (player_mesh s)) + dx,
                                      vec_z := vec_z (position (player_mesh s)) + dz\<rparr>)
          (player_mesh s)\<rparr>"

text \<open>\<open>updatePlayer\<close> throws at its first read of \<open>keys\<close> while \<open>keys\<close> is not
  initialised, before the mesh is moved.\<close>

definition updatePlayer :: "real \<Rightarrow> world \<Rightarrow> outcome" where
  "updatePlayer delta s =
     (let speed = 10 * delta
      in case keys s of
           None \<Rightarrow> Thrown s
         | Some held \<Rightarrow>
             (let s1 = (if held ''w'' then movePlayerMesh 0 (- speed) s else s);
                  s2 = (if held ''s'' then movePlayerMesh 0 speed s1 else s1);
                  s3 = (if held ''a'' then movePlayerMesh (- speed) 0 s2 else s2);
                  s4 = (if held ''d'' then movePlayerMesh speed 0 s3 else s3)
              in Completed s4))"

text \<open>What the key handlers do to \<open>keys\<close>: they assign to its properties, and throw
  while it is not initialised. A movement input is a change of the held keys followed by one
  frame's \<open>updatePlayer\<close>, each of them a call of its own: an exception ends the call and
  leaves the variables as they are.\<close>

definition holdKeys :: "(string \<Rightarrow> bool) \<Rightarrow> world \<Rightarrow> outcome" where
  "holdKeys held s =
     (case keys s of None \<Rightarrow> Thrown s | Some h \<Rightarrow> Completed (s\<lparr>keys := Some held\<rparr>))"

definition movementStep :: "(string \<Rightarrow> bool) \<times> real \<Rightarrow> world \<Rightarrow> world" where
  "movementStep inp s = worldOf (updatePlayer (snd inp) (worldOf (holdKeys (fst inp) s)))"

text \<open>The \<open>keydown\<close> handler \<open>handleKeys\<close>, for an event with the given \<open>key\<close>:
  \<open>down\<close> is \<open>event.type === "keydown"\<close>. It is the program's only caller of
  \<open>buildVehicle\<close>. Its first statement assigns to a property of \<open>keys\<close>, which throws
  while \<open>keys\<close> is not initialised. \<open>toLowerCase\<close> is given for the letters
  \<open>A\<close> to \<open>Z\<close>.\<close>

definition toLowerCase :: "string \<Rightarrow> string" where
  "toLowerCase str =
     map (\<lambda>c. case map_of (zip ''ABCDEFGHIJKLMNOPQRSTUVWXYZ'' ''abcdefghijklmnopqrstuvwxyz'') c of
                Some d \<Rightarrow> d | None \<Rightarrow> c) str"

definition handleKeys :: "string \<Rightarrow> bool \<Rightarrow> world \<Rightarrow> outcome" where
  "handleKeys key down s =
     (case keys s of
        None \<Rightarrow> Thrown s
      | Some held \<Rightarrow>
          (let s1 = s\<lparr>keys := Some (held(toLowerCase key := down))\<rparr>
           in then_do (if key = ''p'' then buildVehicle ''plane'' s1 else Completed s1)
                (\<lambda>s2. if key = ''b'' then buildVehicle ''boat'' s2 else Completed s2)))"

section \<open>Chunk management\<close>

definition chunkKey :: "int \<Rightarrow> int \<Rightarrow> string" where
  "chunkKey cx cz = numberToString cx @ ''_'' @ numberToString cz"

definition chunkID :: "world \<Rightarrow> real \<Rightarrow> real \<Rightarrow> string" where
  "chunkID s x z = chunkKey \<lfloor>x / chunkSize s\<rfloor> \<lfloor>z / chunkSize s\<rfloor>"

text \<open>\<open>const [x,z] = id.split("_").map(Number)\<close>: the first two pieces; a missing piece
  is \<open>undefined\<close>, which arithmetic turns into \<open>NaN\<close>.\<close>

definition parseChunkKey :: "string \<Rightarrow> int option \<times> int option" where
  "parseChunkKey k =
     (case map Number (split_str CHR ''_'' k) of
        [] \<Rightarrow> (None, None)
      | [x] \<Rightarrow> (x, None)
      | x # z # rest \<Rightarrow> (x, z))"

text \<open>\<open>Math.abs(v - c) > r\<close>; a comparison with \<open>NaN\<close> is false.\<close>

definition beyond :: "int option \<Rightarrow> int \<Rightarrow> int \<Rightarrow> bool" where
  "beyond v c r = (case v of None \<Rightarrow> False | Some x \<Rightarrow> \<bar>x - c\<bar> > r)"

subsection \<open>createChunk\<close>

text \<open>One round of the terrain loop and one of the building loop. The colours are
  \<open>0x333333\<close> and \<open>0x555555\<close>; the calls of \<open>Math.random()\<close> are in the source's
  order.\<close>

definition terrainBlock :: "int \<Rightarrow> int \<Rightarrow> mesh list \<times> world \<Rightarrow> mesh list \<times> world" where
  "terrainBlock cx cz gs =
     (let (group, s) = gs;
          (r1, s1) = Math_random s;
          x = (r1 - 0.5) * chunkSize s1 + of_int cx * chunkSize s1;
          (r2, s2) = Math_random s1;
          z = (r2 - 0.5) * chunkSize s2 + of_int cz * chunkSize s2;
          (r3, s3) = Math_random s2;
          y = r3 * 2;
          geo = BoxGeometry 1 y 1;
          mat = \<lparr>color = 3355443, flatShading = False\<rparr>;
          block = setPosition \<lparr>vec_x = x, vec_y = y / 2, vec_z = z\<rparr> (newMesh geo mat)
      in (group @ [block], s3))"

definition buildingBlock :: "int \<Rightarrow> int \<Rightarrow> mesh list \<times> world \<Rightarrow> mesh list \<times> world" where
  "buildingBlock cx cz gs =
     (let (group, s) = gs;
          (r1, s1) = Math_random s;
          w = r1 * 3 + 1;
          (r2, s2) = Math_random s1;
          h = r2 * 5 + 3;
          (r3, s3) = Math_random s2;
          d = r3 * 3 + 1;
          geo = BoxGeometry w h d;
          mat = \<lparr>color = 5592405, flatShading = True\<rparr>;
          (r4, s4) = Math_random s3;
          (r5, s5) = Math_random s4;
          building = setPosition
            \<lparr>vec_x = of_int cx * chunkSize s4 + (r4 - 0.5) * chunkSize s4,
             vec_y = h / 2,
             vec_z = of_int cz * chunkSize s5 + (r5 - 0.5) * chunkSize s5\<rparr>
            (newMesh geo mat)
      in (group @ [building], s5))"

text \<open>\<open>for(let i=0;i<n;i++)\<close> around a body that does not read \<open>i\<close>.\<close>

fun repeat :: "nat \<Rightarrow> ('a \<Rightarrow> 'a) \<Rightarrow> 'a \<Rightarrow> 'a" where
  "repeat 0 body a = a"
| "repeat (Suc n) body a = repeat n body (body a)"

text \<open>The two loops of \<open>createChunk\<close>, for given numbers of rounds. In
  \<open>src/main.js\<close> the loops run 50 and 3 times; the other copy of the program in the
  repository (\<open>src/unnamed/part_000\<close>) is the same but for 100 and 5 rounds.\<close>

definition generateWith :: "nat \<Rightarrow> nat \<Rightarrow> int \<Rightarrow> int \<Rightarrow> world \<Rightarrow> mesh list \<times> world" where
  "generateWith nTerrain nBuildings cx cz s =
     repeat nBuildings (buildingBlock cx cz) (repeat nTerrain (terrainBlock cx cz) ([], s))"

definition generatePrimitives :: "int \<Rightarrow> int \<Rightarrow> world \<Rightarrow> mesh list \<times> world" where
  "generatePrimitives cx cz s = generateWith 50 3 cx cz s"

definition createChunk :: "int \<Rightarrow> int \<Rightarrow> string \<Rightarrow> world \<Rightarrow> world" where
  "createChunk cx cz k s =
     (let (group, s1) = generatePrimitives cx cz s;
          r = nextRef s1;
          s2 = s1\<lparr>heap := (heap s1)(r \<mapsto> GroupObj group), nextRef := Suc r\<rparr>;
          s3 = s2\<lparr>scene := scene s2 @ [Ref r]\<rparr>
      in s3\<lparr>chunks := map_set k r (chunks s3)\<rparr>)"

subsection \<open>unloadChunk and updateChunks\<close>

definition unloadChunk :: "string \<Rightarrow> world \<Rightarrow> world" where
  "unloadChunk k s =
     (case map_get k (chunks s) of
        None \<Rightarrow> s
      | Some chunk \<Rightarrow>
          (let s1 = s\<lparr>scene := remove1 (Ref chunk) (scene s)\<rparr>
           in s1\<lparr>chunks := map_delete k (chunks s1)\<rparr>))"

text \<open>The body of the two nested \<open>for\<close> loops, and the loops over
  \<open>dx, dz = -loadedRadius .. loadedRadius\<close>.\<close>

definition loadChunkAt :: "int \<Rightarrow> int \<Rightarrow> int \<Rightarrow> int \<Rightarrow> world \<Rightarrow> world" where
  "loadChunkAt cx cz dx dz s =
     (let k = chunkKey (cx + dx) (cz + dz)
      in if \<not> map_has k (chunks s) then createChunk (cx + dx) (cz + dz) k s else s)"

definition loadChunks :: "int \<Rightarrow> int \<Rightarrow> world \<Rightarrow> world" where
  "loadChunks cx cz s =
     (let R = loadedRadius s
      in fold (\<lambda>dx. fold (loadChunkAt cx cz dx) [- R .. R]) [- R .. R] s)"

text \<open>The callback of \<open>chunks.forEach\<close>, and the pass itself. \<open>forEach\<close> visits every
  entry that is in the map when its turn comes; the callback deletes at most the entry
  being visited, so the pass runs over the entries present at its start.\<close>

definition isFar :: "int \<Rightarrow> int \<Rightarrow> int \<Rightarrow> string \<Rightarrow> bool" where
  "isFar cx cz R k = (let (x, z) = parseChunkKey k in beyond x cx R \<or> beyond z cz R)"

definition unloadIfFar :: "int \<Rightarrow> int \<Rightarrow> string \<times> nat \<Rightarrow> world \<Rightarrow> world" where
  "unloadIfFar cx cz entry s =
     (if isFar cx cz (loadedRadius s) (fst entry) then unloadChunk (fst entry) s else s)"

definition unloadFarChunks :: "int \<Rightarrow> int \<Rightarrow> world \<Rightarrow> world" where
  "unloadFarChunks cx cz s = fold (unloadIfFar cx cz) (chunks s) s"

definition playerChunkX :: "world \<Rightarrow> int" where
  "playerChunkX s = \<lfloor>vec_x (position (player_mesh s)) / chunkSize s\<rfloor>"

definition playerChunkZ :: "world \<Rightarrow> int" where
  "playerChunkZ s = \<lfloor>vec_z (position (player_mesh s)) / chunkSize s\<rfloor>"

definition updateChunks :: "world \<Rightarrow> world" where
  "updateChunks s =
     (let cx = playerChunkX s;
          cz = playerChunkZ s
      in unloadFarChunks cx cz (loadChunks cx cz s))"

subsection \<open>The registry and the load window\<close>

definition registryKeys :: "world \<Rightarrow> string set" where
  "registryKeys s = fst ` set (chunks s)"



text \<open>A key is well formed when it is two decimal integers joined by \<open>_\<close>, each written
  as the program renders integers (no leading zero, no \<open>-0\<close>) with at most 15 digits,
  which keeps it among the integers a double holds exactly. Only \<open>updateChunks\<close> adds
  keys, and it adds only such keys while the player's chunk coordinate stays in that
  range.\<close>

definition canonicalDigits :: "string \<Rightarrow> bool" where
  "canonicalDigits ds =
     (ds \<noteq> [] \<and> list_all isDigit ds \<and> length ds \<le> 15 \<and> (ds = ''0'' \<or> hd ds \<noteq> CHR ''0''))"

definition canonicalInteger :: "string \<Rightarrow> bool" where
  "canonicalInteger str = (case str of
       [] \<Rightarrow> False
     | c # cs \<Rightarrow> if c = CHR ''-'' then canonicalDigits cs \<and> cs \<noteq> ''0'' else canonicalDigits str)"

definition wellFormedKey :: "string \<Rightarrow> bool" where
  "wellFormedKey k =
     (let a = takeWhile (\<lambda>c. c \<noteq> CHR ''_'') k;
          rest = dropWhile (\<lambda>c. c \<noteq> CHR ''_'') k
      in rest \<noteq> [] \<and> canonicalInteger a \<and> canonicalInteger (tl rest))"

definition registryOk :: "world \<Rightarrow> bool" where
  "registryOk s = (list_all wellFormedKey (map fst (chunks s)) \<and> distinct (map fst (chunks s)))"


definition distinctKeys :: "world \<Rightarrow> bool" where
  "distinctKeys s = distinct (map fst (chunks s))"

text \<open>The primitives of the chunk registered under a key.\<close>

definition chunkPrimitives :: "world \<Rightarrow> string \<Rightarrow> mesh list" where
  "chunkPrimitives s k =
     (case map_get k (chunks s) of
        None \<Rightarrow> []
      | Some r \<Rightarrow> (case heap s r of Some (GroupObj g) \<Rightarrow> g | _ \<Rightarrow> []))"

definition geometryHeight :: "geometry \<Rightarrow> real" where
  "geometryHeight g = (case g of BoxGeometry w h d \<Rightarrow> h | CylinderGeometry rt rb h n \<Rightarrow> h
     | CapsuleGeometry r l c n \<Rightarrow> l + 2 * r)"

definition baseAtGround :: "mesh \<Rightarrow> bool" where
  "baseAtGround m = (vec_y (position m) = geometryHeight (geometry m) / 2)"

text \<open>The chunk coordinate of a primitive, by the mapping of \<open>chunkID\<close> and
  \<open>updateChunks\<close>.\<close>

definition chunkCoordinateOf :: "world \<Rightarrow> mesh \<Rightarrow> int \<times> int" where
  "chunkCoordinateOf s m =
     (\<lfloor>vec_x (position m) / chunkSize s\<rfloor>, \<lfloor>vec_z (position m) / chunkSize s\<rfloor>)"

definition inFootprint :: "world \<Rightarrow> int \<Rightarrow> int \<Rightarrow> mesh \<Rightarrow> bool" where
  "inFootprint s cx cz m = (chunkCoordinateOf s m = (cx, cz) \<and> baseAtGround m)"

text \<open>The square of side \<open>chunkSize\<close> centred at \<open>(cx * chunkSize, cz * chunkSize)\<close>.\<close>

definition inCentredSquare :: "world \<Rightarrow> int \<Rightarrow> int \<Rightarrow> mesh \<Rightarrow> bool" where
  "inCentredSquare s cx cz m =
     (of_int cx * chunkSize s - chunkSize s / 2 \<le> vec_x (position m)
      \<and> vec_x (position m) < of_int cx * chunkSize s + chunkSize s / 2
      \<and> of_int cz * chunkSize s - chunkSize s / 2 \<le> vec_z (position m)
      \<and> vec_z (position m) < of_int cz * chunkSize s + chunkSize s / 2)"

text \<open>What holds of the primitives \<open>createChunk\<close> generates: inside the centred
  square, resting on the ground, and mapped by the coordinate mapping to the chunk itself
  or to its neighbour on the lower side, in each direction.\<close>

definition wellPlaced :: "world \<Rightarrow> int \<Rightarrow> int \<Rightarrow> mesh \<Rightarrow> bool" where
  "wellPlaced s cx cz m =
     (inCentredSquare s cx cz m \<and> baseAtGround m
      \<and> (fst (chunkCoordinateOf s m) = cx - 1 \<or> fst (chunkCoordinateOf s m) = cx)
      \<and> (snd (chunkCoordinateOf s m) = cz - 1 \<or> snd (chunkCoordinateOf s m) = cz))"

definition randomsInUnitInterval :: "world \<Rightarrow> bool" where
  "randomsInUnitInterval s = (\<forall>n. 0 \<le> randomSeq s n \<and> randomSeq s n < 1)"

text \<open>What the chunk manager leaves alone: every variable but the registry, the
  scene, the store of objects and the count of random numbers drawn.\<close>

definition chunkFrame :: "world \<Rightarrow> world \<Rightarrow> bool" where
  "chunkFrame s t =
     (player_x t = player_x s \<and> player_y t = player_y s \<and> player_z t = player_z s
      \<and> player_mesh t = player_mesh s \<and> playerStructures t = playerStructures s
      \<and> chunkSize t = chunkSize s \<and> loadedRadius t = loadedRadius s
      \<and> keys t = keys s \<and> vehicles t = vehicles s
      \<and> randomSeq t = randomSeq s \<and> dateSeq t = dateSeq s \<and> dateCalls t = dateCalls s)"

section \<open>Generation that can fail\<close>

text \<open>
  The source has no \<open>try\<close>: an exception thrown inside \<open>createChunk\<close> (by a
  constructor of the graphics library, say on resource exhaustion) leaves
  \<open>createChunk\<close>, the two \<open>for\<close> loops and \<open>updateChunks\<close> at once, and the
  module's variables stay as they were at the throw. \<open>fails\<close> says for which chunk
  coordinates the first constructor call of \<open>createChunk\<close> throws.
\<close>

definition createChunk_throwing ::
  "(int \<times> int \<Rightarrow> bool) \<Rightarrow> int \<Rightarrow> int \<Rightarrow> string \<Rightarrow> world \<Rightarrow> outcome" where
  "createChunk_throwing fails cx cz k s =
     (if fails (cx, cz) then Thrown s else Completed (createChunk cx cz k s))"

definition loadChunkAt_throwing ::
  "(int \<times> int \<Rightarrow> bool) \<Rightarrow> int \<Rightarrow> int \<Rightarrow> int \<Rightarrow> int \<Rightarrow> world \<Rightarrow> outcome" where
  "loadChunkAt_throwing fails cx cz dx dz s =
     (let k = chunkKey (cx + dx) (cz + dz)
      in if \<not> map_has k (chunks s) then createChunk_throwing fails (cx + dx) (cz + dz) k s
         else Completed s)"

definition loadRow_throwing ::
  "(int \<times> int \<Rightarrow> bool) \<Rightarrow> int \<Rightarrow> int \<Rightarrow> int list \<Rightarrow> int \<Rightarrow> outcome \<Rightarrow> outcome" where
  "loadRow_throwing fails cx cz zs dx r =
     fold (\<lambda>dz r'. then_do r' (loadChunkAt_throwing fails cx cz dx dz)) zs r"





section \<open>Sequences of calls\<close>

text \<open>The calls the frame loop and the chunk manager make after a structure has been
  recorded, each a call of its own: when one throws, the next finds the variables as the
  throw left them. \<open>Movement\<close> is a change of the held keys followed by
  \<open>updatePlayer\<close>.\<close>

datatype call =
    UpdateChunks
  | UnloadChunk string
  | Movement "string \<Rightarrow> bool" real
  | AnimateVehicles real

definition run :: "call \<Rightarrow> world \<Rightarrow> world" where
  "run c s = (case c of
       UpdateChunks \<Rightarrow> updateChunks s
     | UnloadChunk k \<Rightarrow> unloadChunk k s
     | Movement held delta \<Rightarrow> movementStep (held, delta) s
     | AnimateVehicles delta \<Rightarrow> worldOf (animateVehicles delta s))"

text \<open>One frame, \<open>animate\<close>, with the time step \<open>clock.getDelta()\<close> returns: the
  player moves, the chunks are updated, the vehicles hover, and \<open>animateImmersion\<close>
  reads the clock once for the light's orbit. (The light and the rendering change none of
  the other variables modelled.)\<close>

definition animate :: "real \<Rightarrow> world \<Rightarrow> outcome" where
  "animate delta s =
     then_do (updatePlayer delta s) (\<lambda>s1.
       then_do (animateVehicles delta (updateChunks s1)) (\<lambda>s2.
         Completed (snd (Date_now s2))))"

section \<open>A concrete state\<close>

text \<open>
  The state \<open>init\<close> reaches just before its call of \<open>updateChunks\<close>, with the
  source's constants (\<open>chunkSize = 50\<close>, \<open>loadedRadius = 2\<close>, the player at
  \<open>(0, 2, 0)\<close>, colour \<open>0xff0000\<close>) and sample sequences for the random numbers and
  the clock. \<open>init\<close> runs at line 13, so \<open>keys\<close> and \<open>vehicles\<close> are not initialised.
\<close>

definition initialWorld :: world where
  "initialWorld =
     \<lparr>player_x = 0, player_y = 2, player_z = 0,
      player_mesh = setPosition \<lparr>vec_x = 0, vec_y = 2, vec_z = 0\<rparr>
        (newMesh (CapsuleGeometry 0.5 1.5 4 8) \<lparr>color = 16711680, flatShading = False\<rparr>),
      chunks = [], playerStructures = [],
      chunkSize = 50, loadedRadius = 2,
      scene = [AmbientLightNode, DirLightNode, PlayerNode],
      keys = None, vehicles = None,
      heap = (\<lambda>r. None), nextRef = 0,
      randomSeq = (\<lambda>n. real (n mod 4) / 4), randomCalls = 0,
      dateSeq = (\<lambda>n. 1700000000000 + int n), dateCalls = 0\<rparr>"

text \<open>The state of the first tick after the first round of its load loops: the chunk
  at \<open>(-2, -2)\<close> has been created.\<close>

definition firstChunkWorld :: world where
  "firstChunkWorld = createChunk (- 2) (- 2) ''-2_-2'' initialWorld"

text \<open>The state in which \<open>init\<close> returns: its last statement is the first tick. The
  call \<open>animate()\<close> of line 14 then throws in \<open>updatePlayer\<close>, which ends the module
  body before lines 54 and 63: this is the state of the program as it has loaded, and
  \<open>keys\<close> and \<open>vehicles\<close> stay uninitialised for good.\<close>

definition loadedWorld :: world where
  "loadedWorld = updateChunks initialWorld"


text \<open>The state \<open>buildVehicle("plane")\<close> leaves when it is called in the initial
  state: the mesh has been created and added to the scene, and the call has thrown at
  \<open>vehicles.push\<close>.\<close>

definition strandedWorld :: world where
  "strandedWorld = worldOf (buildVehicle ''plane'' initialWorld)"

text \<open>The same state with a clock that reads 0 ms, 1000 ms, 2000 ms and so on.\<close>

definition tickingWorld :: world where
  "tickingWorld = strandedWorld\<lparr>dateSeq := (\<lambda>n. 1000 * int n)\<rparr>"

text \<open>The meshes \<open>buildVehicle\<close> creates for a plane and for a boat with the player at
  \<open>(0, 2, 0)\<close>.\<close>

definition planeMesh :: mesh where
  "planeMesh =
     Mesh (BoxGeometry 2 0.4 4) \<lparr>color = 16776960, flatShading = False\<rparr>
       \<lparr>vec_x = 2, vec_y = 3, vec_z = 0\<rparr> \<lparr>vec_x = 0, vec_y = 0, vec_z = 0\<rparr>
       [Mesh (BoxGeometry 4 0.1 1) \<lparr>color = 16776960, flatShading = False\<rparr>
          \<lparr>vec_x = 0, vec_y = 0, vec_z = 0\<rparr> \<lparr>vec_x = 0, vec_y = 0, vec_z = 0\<rparr> []]"

definition boatMesh :: mesh where
  "boatMesh =
     Mesh (CylinderGeometry 1 1 0.5 8) \<lparr>color = 255, flatShading = False\<rparr>
       \<lparr>vec_x = 2, vec_y = 0.25, vec_z = 0\<rparr> \<lparr>vec_x = 0, vec_y = 0, vec_z = pi / 2\<rparr> []"

section \<open>Rendering and parsing chunk keys\<close>

lemma digit_facts:
  assumes "d < 10"
  shows "isDigit (digitChar d) \<and> digitValue (digitChar d) = d \<and> digitChar d \<noteq> CHR ''_''
    \<and> digitChar d \<noteq> CHR ''-'' \<and> digitChar d \<noteq> CHR ''+''"
proof -
  from assms have "d = 0 \<or> d = 1 \<or> d = 2 \<or> d = 3 \<or> d = 4 \<or> d = 5 \<or> d = 6 \<or> d = 7
      \<or> d = 8 \<or> d = 9"
    by arith
  then show ?thesis
    by (elim disjE) (simp_all add: digitChar_def isDigit_def digitValue_def)
qed

lemma natToString_digits: "list_all isDigit (natToString n) \<and> natToString n \<noteq> []"
proof (induction n rule: natToString.induct)
  case (1 n)
  show ?case
  proof (cases "n < 10")
    case True
    then show ?thesis using digit_facts[of n] by (simp add: natToString.simps[of n])
  next
    case False
    then show ?thesis using 1 digit_facts[of "n mod 10"] by (simp add: natToString.simps[of n])
  qed
qed

lemma digitsValue_snoc: "digitsValue (ds @ [c]) = 10 * digitsValue ds + digitValue c"
  by (simp add: digitsValue_def)

lemma digitsValue_natToString: "digitsValue (natToString n) = n"
proof (induction n rule: natToString.induct)
  case (1 n)
  show ?case
  proof (cases "n < 10")
    case True
    then show ?thesis using digit_facts[of n] by (simp add: natToString.simps[of n] digitsValue_def)
  next
    case False
    then show ?thesis using 1 digit_facts[of "n mod 10"]
      by (simp add: natToString.simps[of n] digitsValue_snoc)
  qed
qed

lemma natToString_no_sep: "c \<in> set (natToString n) \<Longrightarrow> isDigit c"
  using natToString_digits[of n] by (simp add: list_all_iff)

lemma isDigit_not_special: "isDigit c \<Longrightarrow> c \<noteq> CHR ''_'' \<and> c \<noteq> CHR ''-'' \<and> c \<noteq> CHR ''+''"
  by (auto simp: isDigit_def)

lemma natToString_no_underscore: "CHR ''_'' \<notin> set (natToString n)"
  using natToString_no_sep isDigit_not_special by blast

lemma numberToString_no_sep: "CHR ''_'' \<notin> set (numberToString i)"
  by (simp add: numberToString_def natToString_no_underscore)

lemma natToString_hd: "hd (natToString n) \<noteq> CHR ''-'' \<and> hd (natToString n) \<noteq> CHR ''+''"
proof -
  have "hd (natToString n) \<in> set (natToString n)"
    using natToString_digits[of n] by simp
  then show ?thesis using natToString_no_sep isDigit_not_special by blast
qed

lemma Number_numberToString: "Number (numberToString i) = Some i"
proof (cases "i < 0")
  case True
  then show ?thesis
    using natToString_digits[of "nat (- i)"]
    by (simp add: Number_def numberToString_def isDigits_def digitsValue_natToString)
next
  case False
  obtain c cs where eq: "natToString (nat i) = c # cs"
    using natToString_digits[of "nat i"] by (cases "natToString (nat i)") auto
  have "c \<noteq> CHR ''-'' \<and> c \<noteq> CHR ''+''"
    using natToString_hd[of "nat i"] eq by simp
  moreover have "isDigits (c # cs)"
    using natToString_digits[of "nat i"] eq by (simp add: isDigits_def)
  moreover have "digitsValue (c # cs) = nat i"
    using digitsValue_natToString[of "nat i"] eq by simp
  ultimately show ?thesis using False eq
    by (simp add: Number_def numberToString_def)
qed

lemma split_str_no_sep: "sep \<notin> set a \<Longrightarrow> split_str sep a = [a]"
  by (induction a) auto

lemma split_str_append: "sep \<notin> set a \<Longrightarrow> split_str sep (a @ sep # b) = a # split_str sep b"
  by (induction a) auto

lemma parseChunkKey_chunkKey: "parseChunkKey (chunkKey a b) = (Some a, Some b)"
  by (simp add: parseChunkKey_def chunkKey_def split_str_append split_str_no_sep
      numberToString_no_sep Number_numberToString)


















section \<open>The effect of createChunk\<close>

lemma terrainBlock_eq:
  "terrainBlock cx cz (g, s) =
     (g @ [setPosition
        \<lparr>vec_x = (randomSeq s (randomCalls s) - 0.5) * chunkSize s + of_int cx * chunkSize s,
         vec_y = randomSeq s (Suc (Suc (randomCalls s))) * 2 / 2,
         vec_z = (randomSeq s (Suc (randomCalls s)) - 0.5) * chunkSize s + of_int cz * chunkSize s\<rparr>
        (newMesh (BoxGeometry 1 (randomSeq s (Suc (Suc (randomCalls s))) * 2) 1)
           \<lparr>color = 3355443, flatShading = False\<rparr>)],
      s\<lparr>randomCalls := randomCalls s + 3\<rparr>)"
  by (simp add: terrainBlock_def Math_random_def Let_def)

lemma buildingBlock_eq:
  "buildingBlock cx cz (g, s) =
     (g @ [setPosition
        \<lparr>vec_x = of_int cx * chunkSize s + (randomSeq s (Suc (Suc (Suc (randomCalls s)))) - 0.5) * chunkSize s,
         vec_y = (randomSeq s (Suc (randomCalls s)) * 5 + 3) / 2,
         vec_z = of_int cz * chunkSize s + (randomSeq s (Suc (Suc (Suc (Suc (randomCalls s))))) - 0.5) * chunkSize s\<rparr>
        (newMesh (BoxGeometry (randomSeq s (randomCalls s) * 3 + 1)
                    (randomSeq s (Suc (randomCalls s)) * 5 + 3)
                    (randomSeq s (Suc (Suc (randomCalls s))) * 3 + 1))
           \<lparr>color = 5592405, flatShading = True\<rparr>)],
      s\<lparr>randomCalls := randomCalls s + 5\<rparr>)"
  by (simp add: buildingBlock_def Math_random_def Let_def)

lemma repeat_terrain_snd:
  "snd (repeat n (terrainBlock cx cz) (g, s)) = s\<lparr>randomCalls := randomCalls s + 3 * n\<rparr>"
  by (induction n arbitrary: g s) (simp_all add: terrainBlock_eq)

lemma repeat_building_snd:
  "snd (repeat n (buildingBlock cx cz) (g, s)) = s\<lparr>randomCalls := randomCalls s + 5 * n\<rparr>"
  by (induction n arbitrary: g s) (simp_all add: buildingBlock_eq)

lemma generateWith_snd:
  "snd (generateWith nT nB cx cz s) = s\<lparr>randomCalls := randomCalls s + (3 * nT + 5 * nB)\<rparr>"
proof -
  obtain g t where gt: "repeat nT (terrainBlock cx cz) ([], s) = (g, t)"
    by (cases "repeat nT (terrainBlock cx cz) ([], s)")
  have "t = s\<lparr>randomCalls := randomCalls s + 3 * nT\<rparr>"
    using repeat_terrain_snd[of nT cx cz "[]" s] gt by simp
  then show ?thesis
    using repeat_building_snd[of nB cx cz g t] gt by (simp add: generateWith_def add.assoc)
qed

lemma generatePrimitives_snd:
  "snd (generatePrimitives cx cz s) = s\<lparr>randomCalls := randomCalls s + 165\<rparr>"
  by (simp add: generatePrimitives_def generateWith_snd)

lemma createChunk_eq:
  "createChunk cx cz k s =
     s\<lparr>chunks := map_set k (nextRef s) (chunks s),
       scene := scene s @ [Ref (nextRef s)],
       heap := (heap s)(nextRef s \<mapsto> GroupObj (fst (generatePrimitives cx cz s))),
       nextRef := Suc (nextRef s),
       randomCalls := randomCalls s + 165\<rparr>"
proof -
  obtain g t where gt: "generatePrimitives cx cz s = (g, t)"
    by (cases "generatePrimitives cx cz s")
  then have "t = s\<lparr>randomCalls := randomCalls s + 165\<rparr>"
    using generatePrimitives_snd[of cx cz s] by simp
  then show ?thesis using gt by (simp add: createChunk_def Let_def)
qed

section \<open>The registry across a tick\<close>


lemma keys_map_delete: "fst ` set (map_delete k m) = fst ` set m - {k}"
  by (auto simp: map_delete_def)


lemma distinct_map_delete: "distinct (map fst m) \<Longrightarrow> distinct (map fst (map_delete k m))"
  by (simp add: map_delete_def distinct_map_filter)






lemma loadedRadius_createChunk [simp]: "loadedRadius (createChunk a b k s) = loadedRadius s"
  by (simp add: createChunk_eq)


lemma registryKeys_unloadChunk: "registryKeys (unloadChunk k s) = registryKeys s - {k}"
proof (cases "map_get k (chunks s)")
  case None
  then have "k \<notin> fst ` set (chunks s)"
    by (simp add: map_get_def map_of_eq_None_iff)
  with None show ?thesis by (simp add: unloadChunk_def registryKeys_def)
next
  case (Some r)
  then show ?thesis by (simp add: unloadChunk_def registryKeys_def Let_def keys_map_delete)
qed

lemma loadedRadius_unloadChunk [simp]: "loadedRadius (unloadChunk k s) = loadedRadius s"
  by (simp add: unloadChunk_def Let_def split: option.splits)

lemma loadedRadius_unloadIfFar [simp]: "loadedRadius (unloadIfFar cx cz e s) = loadedRadius s"
  by (simp add: unloadIfFar_def)





lemma loadedRadius_load_row [simp]:
  "loadedRadius (fold (loadChunkAt cx cz dx) zs s) = loadedRadius s"
  by (induction zs arbitrary: s) (simp_all add: loadChunkAt_def Let_def)

lemma loadedRadius_loadChunks [simp]: "loadedRadius (loadChunks cx cz s) = loadedRadius s"
proof -
  have "loadedRadius (fold (\<lambda>dx. fold (loadChunkAt cx cz dx) zs) xs s) = loadedRadius s" for xs zs
    by (induction xs arbitrary: s) simp_all
  then show ?thesis by (simp add: loadChunks_def Let_def)
qed

lemma fold_preserves:
  assumes "\<And>x t. P t \<Longrightarrow> P (f x t)" and "P s"
  shows "P (fold f xs s)"
  using assms(2) by (induction xs arbitrary: s) (simp_all add: assms(1))

lemma chunkFrame_refl: "chunkFrame s s"
  by (simp add: chunkFrame_def)

lemma chunkFrame_trans: "chunkFrame s t \<Longrightarrow> chunkFrame t u \<Longrightarrow> chunkFrame s u"
  by (simp add: chunkFrame_def)

lemma chunkFrame_createChunk: "chunkFrame s (createChunk a b k s)"
  by (simp add: createChunk_eq chunkFrame_def)

lemma chunkFrame_unloadChunk: "chunkFrame s (unloadChunk k s)"
  by (simp add: unloadChunk_def chunkFrame_def Let_def split: option.splits)

lemma chunkFrame_loadChunkAt: "chunkFrame s (loadChunkAt cx cz dx dz s)"
  by (simp add: loadChunkAt_def Let_def chunkFrame_refl chunkFrame_createChunk)

lemma chunkFrame_unloadIfFar: "chunkFrame s (unloadIfFar cx cz e s)"
  by (simp add: unloadIfFar_def chunkFrame_refl chunkFrame_unloadChunk)

lemma chunkFrame_loadChunks: "chunkFrame s (loadChunks cx cz s)"
proof -
  have row: "chunkFrame s (fold (loadChunkAt cx cz dx) zs t)" if "chunkFrame s t" for dx zs t
    using that
    by (rule fold_preserves[rotated]) (blast intro: chunkFrame_trans chunkFrame_loadChunkAt)
  have "chunkFrame s (fold (\<lambda>dx. fold (loadChunkAt cx cz dx) zs) xs s)" for xs zs
    by (rule fold_preserves[where P = "chunkFrame s"]) (simp_all add: row chunkFrame_refl)
  then show ?thesis by (simp add: loadChunks_def Let_def)
qed

lemma chunkFrame_unloadFarChunks: "chunkFrame s (unloadFarChunks cx cz s)"
  unfolding unloadFarChunks_def
  by (rule fold_preserves[where P = "chunkFrame s"])
     (blast intro: chunkFrame_trans chunkFrame_unloadIfFar chunkFrame_refl)+

lemma chunkFrame_updateChunks: "chunkFrame s (updateChunks s)"
  by (simp add: updateChunks_def Let_def)
     (blast intro: chunkFrame_trans chunkFrame_loadChunks chunkFrame_unloadFarChunks)



lemma distinctKeys_unloadChunk: "distinctKeys s \<Longrightarrow> distinctKeys (unloadChunk k s)"
  by (simp add: distinctKeys_def unloadChunk_def Let_def distinct_map_delete split: option.splits)










section \<open>The primitives of a chunk\<close>

lemma map_get_map_set_same: "map_get k (map_set k v m) = Some v"
  by (induction m) (auto simp: map_get_def)

lemma map_get_map_set_other: "k' \<noteq> k \<Longrightarrow> map_get k' (map_set k v m) = map_get k' m"
  by (induction m) (auto simp: map_get_def)

lemma repeat_terrain_length:
  "length (fst (repeat n (terrainBlock cx cz) (g, s))) = length g + n"
  by (induction n arbitrary: g s) (simp_all add: terrainBlock_eq)

lemma repeat_building_length:
  "length (fst (repeat n (buildingBlock cx cz) (g, s))) = length g + n"
  by (induction n arbitrary: g s) (simp_all add: buildingBlock_eq)

lemma generateWith_length: "length (fst (generateWith nT nB cx cz s)) = nT + nB"
proof -
  obtain g t where gt: "repeat nT (terrainBlock cx cz) ([], s) = (g, t)"
    by (cases "repeat nT (terrainBlock cx cz) ([], s)")
  have "length g = nT" using repeat_terrain_length[of nT cx cz "[]" s] gt by simp
  then show ?thesis
    using repeat_building_length[of nB cx cz g t] gt by (simp add: generateWith_def)
qed

lemma generatePrimitives_length: "length (fst (generatePrimitives cx cz s)) = 53"
  by (simp add: generatePrimitives_def generateWith_length)

lemma chunkPrimitives_createChunk:
  "chunkPrimitives (createChunk cx cz k s) k = fst (generatePrimitives cx cz s)"
  by (simp add: chunkPrimitives_def createChunk_eq map_get_map_set_same)

lemma repeat_terrain_prefix:
  "\<exists>rest. fst (repeat n (terrainBlock cx cz) (g, s)) = g @ rest"
proof (induction n arbitrary: g s)
  case 0
  then show ?case by simp
next
  case (Suc n)
  obtain g' s' where st: "terrainBlock cx cz (g, s) = (g', s')" by (cases "terrainBlock cx cz (g, s)")
  then obtain b where "g' = g @ [b]" by (auto simp: terrainBlock_eq)
  moreover obtain rest where "fst (repeat n (terrainBlock cx cz) (g', s')) = g' @ rest"
    using Suc.IH by blast
  ultimately show ?case using st by simp
qed

lemma repeat_building_prefix:
  "\<exists>rest. fst (repeat n (buildingBlock cx cz) (g, s)) = g @ rest"
proof (induction n arbitrary: g s)
  case 0
  then show ?case by simp
next
  case (Suc n)
  obtain g' s' where st: "buildingBlock cx cz (g, s) = (g', s')" by (cases "buildingBlock cx cz (g, s)")
  then obtain b where "g' = g @ [b]" by (auto simp: buildingBlock_eq)
  moreover obtain rest where "fst (repeat n (buildingBlock cx cz) (g', s')) = g' @ rest"
    using Suc.IH by blast
  ultimately show ?case using st by simp
qed

lemma generateWith_first:
  "\<exists>rest. fst (generateWith (Suc n) nB cx cz s) = fst (terrainBlock cx cz ([], s)) @ rest"
proof -
  obtain g1 s1 where b: "terrainBlock cx cz ([], s) = (g1, s1)"
    by (cases "terrainBlock cx cz ([], s)")
  then have r: "repeat (Suc n) (terrainBlock cx cz) ([], s) = repeat n (terrainBlock cx cz) (g1, s1)"
    by simp
  obtain rest1 where r1: "fst (repeat n (terrainBlock cx cz) (g1, s1)) = g1 @ rest1"
    using repeat_terrain_prefix by blast
  obtain g2 s2 where g2: "repeat n (terrainBlock cx cz) (g1, s1) = (g2, s2)"
    by (cases "repeat n (terrainBlock cx cz) (g1, s1)")
  obtain rest2 where "fst (repeat nB (buildingBlock cx cz) (g2, s2)) = g2 @ rest2"
    using repeat_building_prefix by blast
  then have "fst (generateWith (Suc n) nB cx cz s) = g1 @ (rest1 @ rest2)"
    using r r1 g2 by (simp add: generateWith_def)
  then show ?thesis using b by auto
qed

lemma generatePrimitives_first:
  "\<exists>rest. fst (generatePrimitives cx cz s) = fst (terrainBlock cx cz ([], s)) @ rest"
proof -
  have "generatePrimitives cx cz s = generateWith (Suc 49) 3 cx cz s"
    by (simp add: generatePrimitives_def)
  then show ?thesis using generateWith_first[of 49 3 cx cz s] by simp
qed

lemma centred_offset:
  fixes r c :: real
  assumes "0 \<le> r" "r < 1" "0 < c"
  shows "of_int a * c - c / 2 \<le> (r - 0.5) * c + of_int a * c"
    and "(r - 0.5) * c + of_int a * c < of_int a * c + c / 2"
    and "\<lfloor>((r - 0.5) * c + of_int a * c) / c\<rfloor> = a - 1 \<or> \<lfloor>((r - 0.5) * c + of_int a * c) / c\<rfloor> = a"
proof -
  have rc: "0 \<le> r * c" "r * c < c"
    using assms by (simp_all add: mult_less_cancel_right2)
  show "of_int a * c - c / 2 \<le> (r - 0.5) * c + of_int a * c"
    using rc by (simp add: algebra_simps)
  show "(r - 0.5) * c + of_int a * c < of_int a * c + c / 2"
    using rc by (simp add: algebra_simps)
  have q: "((r - 0.5) * c + of_int a * c) / c = (r - 1 / 2) + of_int a"
    using assms(3) by (simp add: field_simps)
  have "\<lfloor>(r - 1 / 2) + of_int a\<rfloor> = \<lfloor>r - 1 / 2\<rfloor> + a" by simp
  moreover have "\<lfloor>r - 1 / 2\<rfloor> = - 1 \<or> \<lfloor>r - 1 / 2\<rfloor> = 0"
    using assms(1,2) by (auto simp: floor_eq_iff)
  ultimately show "\<lfloor>((r - 0.5) * c + of_int a * c) / c\<rfloor> = a - 1
      \<or> \<lfloor>((r - 0.5) * c + of_int a * c) / c\<rfloor> = a"
    unfolding q by auto
qed

lemma terrain_block_well:
  assumes "randomsInUnitInterval s" "0 < chunkSize s"
  shows "list_all (wellPlaced s cx cz) g \<Longrightarrow> randomSeq t = randomSeq s \<Longrightarrow> chunkSize t = chunkSize s
     \<Longrightarrow> list_all (wellPlaced s cx cz) (fst (terrainBlock cx cz (g, t)))"
proof -
  assume g: "list_all (wellPlaced s cx cz) g" and rs: "randomSeq t = randomSeq s"
    and cs: "chunkSize t = chunkSize s"
  let ?n = "randomCalls t"
  have r: "0 \<le> randomSeq s n \<and> randomSeq s n < 1" for n
    using assms(1) by (simp add: randomsInUnitInterval_def)
  note x = centred_offset[of "randomSeq s ?n" "chunkSize s" cx]
  note z = centred_offset[of "randomSeq s (Suc ?n)" "chunkSize s" cz]
  show ?thesis
    using g x z r assms(2)
    by (simp add: terrainBlock_eq rs cs wellPlaced_def inCentredSquare_def baseAtGround_def
        chunkCoordinateOf_def geometryHeight_def setPosition_def newMesh_def add.commute)
qed

lemma building_block_well:
  assumes "randomsInUnitInterval s" "0 < chunkSize s"
  shows "list_all (wellPlaced s cx cz) g \<Longrightarrow> randomSeq t = randomSeq s \<Longrightarrow> chunkSize t = chunkSize s
     \<Longrightarrow> list_all (wellPlaced s cx cz) (fst (buildingBlock cx cz (g, t)))"
proof -
  assume g: "list_all (wellPlaced s cx cz) g" and rs: "randomSeq t = randomSeq s"
    and cs: "chunkSize t = chunkSize s"
  let ?n = "randomCalls t"
  have r: "0 \<le> randomSeq s n \<and> randomSeq s n < 1" for n
    using assms(1) by (simp add: randomsInUnitInterval_def)
  note x = centred_offset[of "randomSeq s (Suc (Suc (Suc ?n)))" "chunkSize s" cx]
  note z = centred_offset[of "randomSeq s (Suc (Suc (Suc (Suc ?n))))" "chunkSize s" cz]
  show ?thesis
    using g x z r assms(2)
    by (simp add: buildingBlock_eq rs cs wellPlaced_def inCentredSquare_def baseAtGround_def
        chunkCoordinateOf_def geometryHeight_def setPosition_def newMesh_def add.commute)
qed

lemma repeat_terrain_well:
  assumes "randomsInUnitInterval s" "0 < chunkSize s"
  shows "list_all (wellPlaced s cx cz) g \<Longrightarrow> randomSeq t = randomSeq s \<Longrightarrow> chunkSize t = chunkSize s
     \<Longrightarrow> list_all (wellPlaced s cx cz) (fst (repeat n (terrainBlock cx cz) (g, t)))"
proof (induction n arbitrary: g t)
  case 0
  then show ?case by simp
next
  case (Suc n)
  obtain g' t' where st: "terrainBlock cx cz (g, t) = (g', t')"
    by (cases "terrainBlock cx cz (g, t)")
  have "list_all (wellPlaced s cx cz) g'"
    using terrain_block_well[OF assms Suc.prems] st by simp
  moreover have "randomSeq t' = randomSeq s \<and> chunkSize t' = chunkSize s"
    using st Suc.prems by (auto simp: terrainBlock_eq)
  ultimately show ?case using Suc.IH[of g' t'] st by simp
qed

lemma repeat_building_well:
  assumes "randomsInUnitInterval s" "0 < chunkSize s"
  shows "list_all (wellPlaced s cx cz) g \<Longrightarrow> randomSeq t = randomSeq s \<Longrightarrow> chunkSize t = chunkSize s
     \<Longrightarrow> list_all (wellPlaced s cx cz) (fst (repeat n (buildingBlock cx cz) (g, t)))"
proof (induction n arbitrary: g t)
  case 0
  then show ?case by simp
next
  case (Suc n)
  obtain g' t' where st: "buildingBlock cx cz (g, t) = (g', t')"
    by (cases "buildingBlock cx cz (g, t)")
  have "list_all (wellPlaced s cx cz) g'"
    using building_block_well[OF assms Suc.prems] st by simp
  moreover have "randomSeq t' = randomSeq s \<and> chunkSize t' = chunkSize s"
    using st Suc.prems by (auto simp: buildingBlock_eq)
  ultimately show ?case using Suc.IH[of g' t'] st by simp
qed

lemma generateWith_well:
  assumes "randomsInUnitInterval s" "0 < chunkSize s"
  shows "list_all (wellPlaced s cx cz) (fst (generateWith nT nB cx cz s))"
proof -
  obtain g t where gt: "repeat nT (terrainBlock cx cz) ([], s) = (g, t)"
    by (cases "repeat nT (terrainBlock cx cz) ([], s)")
  have g: "list_all (wellPlaced s cx cz) g"
    using repeat_terrain_well[OF assms, of cx cz "[]" s nT] gt by simp
  have t: "t = s\<lparr>randomCalls := randomCalls s + 3 * nT\<rparr>"
    using repeat_terrain_snd[of nT cx cz "[]" s] gt by simp
  have "list_all (wellPlaced s cx cz) (fst (repeat nB (buildingBlock cx cz) (g, t)))"
    by (rule repeat_building_well[OF assms g]) (simp_all add: t)
  then show ?thesis using gt by (simp add: generateWith_def)
qed

lemma generatePrimitives_well:
  assumes "randomsInUnitInterval s" "0 < chunkSize s"
  shows "list_all (wellPlaced s cx cz) (fst (generatePrimitives cx cz s))"
  using generateWith_well[OF assms] by (simp add: generatePrimitives_def)

lemma initial_randoms: "randomsInUnitInterval initialWorld"
proof -
  have "real (n mod 4) / 4 < 1" for n :: nat
  proof -
    have "n mod 4 < 4" by simp
    then have "real (n mod 4) < 4" by linarith
    then show ?thesis by simp
  qed
  then show ?thesis by (simp add: randomsInUnitInterval_def initialWorld_def)
qed

section \<open>Structures, vehicles and movement\<close>

lemma updatePlayer_uninitialised: "keys s = None \<Longrightarrow> updatePlayer delta s = Thrown s"
  by (simp add: updatePlayer_def)

lemma animateVehicles_uninitialised: "vehicles s = None \<Longrightarrow> animateVehicles delta s = Thrown s"
  by (simp add: animateVehicles_def)

lemma animate_uninitialised: "keys s = None \<Longrightarrow> animate delta s = Thrown s"
  by (simp add: animate_def updatePlayer_uninitialised then_do_def)

lemma handleKeys_uninitialised: "keys s = None \<Longrightarrow> handleKeys key down s = Thrown s"
  by (simp add: handleKeys_def)

lemma frames_uninitialised:
  "keys s = None \<Longrightarrow> fold (\<lambda>delta t. worldOf (animate delta t)) deltas s = s"
  by (induction deltas) (simp_all add: animate_uninitialised worldOf_def)

lemma playerStructures_movePlayerMesh [simp]:
  "playerStructures (movePlayerMesh dx dz s) = playerStructures s"
  by (simp add: movePlayerMesh_def)

lemma playerStructures_updatePlayer [simp]:
  "playerStructures (worldOf (updatePlayer delta s)) = playerStructures s"
  by (cases "keys s") (simp_all add: updatePlayer_def worldOf_def Let_def)

lemma playerStructures_holdKeys [simp]:
  "playerStructures (worldOf (holdKeys held s)) = playerStructures s"
  by (cases "keys s") (simp_all add: holdKeys_def worldOf_def)

lemma playerStructures_movementStep [simp]:
  "playerStructures (movementStep inp s) = playerStructures s"
  by (simp add: movementStep_def)

lemma playerStructures_hoverVehicle [simp]:
  "playerStructures (hoverVehicle delta v s) = playerStructures s"
  by (simp add: hoverVehicle_def Date_now_def Let_def split: option.splits obj.splits)

lemma playerStructures_animateVehicles [simp]:
  "playerStructures (worldOf (animateVehicles delta s)) = playerStructures s"
proof (cases "vehicles s")
  case None
  then show ?thesis by (simp add: animateVehicles_def worldOf_def)
next
  case (Some vs)
  have "playerStructures (fold (hoverVehicle delta) vs s) = playerStructures s"
    by (rule fold_preserves[where P = "\<lambda>t. playerStructures t = playerStructures s"]) simp_all
  then show ?thesis using Some by (simp add: animateVehicles_def worldOf_def)
qed

lemma playerStructures_updateChunks [simp]:
  "playerStructures (updateChunks s) = playerStructures s"
  using chunkFrame_updateChunks[of s] by (simp add: chunkFrame_def)

lemma playerStructures_unloadChunk [simp]:
  "playerStructures (unloadChunk k s) = playerStructures s"
  using chunkFrame_unloadChunk[of s k] by (simp add: chunkFrame_def)

lemma playerStructures_run [simp]: "playerStructures (run c s) = playerStructures s"
  by (cases c) (simp_all add: run_def)

lemma playerStructures_calls: "playerStructures (fold run calls s) = playerStructures s"
  by (induction calls arbitrary: s) simp_all

lemma saveStructure_eq:
  "saveStructure m s =
     s\<lparr>playerStructures :=
         map_set (nextStructureKey s)
           \<lparr>st_geometry = geometry m, st_material = material m,
            st_position = position m, st_rotation = rotation m\<rparr>
           (playerStructures s),
       randomCalls := Suc (randomCalls s), dateCalls := Suc (dateCalls s)\<rparr>"
  by (simp add: saveStructure_def Date_now_def Math_random_def nextStructureKey_def Let_def)

lemma buildVehicle_uninitialised:
  "vehicles s = None \<Longrightarrow> vehicleMesh vtype s = Some m \<Longrightarrow>
   buildVehicle vtype s =
     Thrown (s\<lparr>scene := scene s @ [Ref (nextRef s)],
               heap := (heap s)(nextRef s \<mapsto> MeshObj m),
               nextRef := Suc (nextRef s)\<rparr>)"
  by (simp add: buildVehicle_def Let_def)

lemma buildVehicle_initialised:
  "vehicles s = Some vs \<Longrightarrow> vehicleMesh vtype s = Some m \<Longrightarrow>
   buildVehicle vtype s =
     Completed (s\<lparr>playerStructures :=
           map_set (nextStructureKey s)
             \<lparr>st_geometry = geometry m, st_material = material m,
              st_position = position m, st_rotation = rotation m\<rparr>
             (playerStructures s),
         scene := scene s @ [Ref (nextRef s)],
         vehicles := Some (vs @ [nextRef s]),
         heap := (heap s)(nextRef s \<mapsto> MeshObj m),
         nextRef := Suc (nextRef s),
         randomCalls := Suc (randomCalls s), dateCalls := Suc (dateCalls s)\<rparr>)"
  by (simp add: buildVehicle_def saveStructure_eq Let_def nextStructureKey_def)

lemma hover_moves_live_mesh:
  "heap s v = Some (MeshObj m) \<Longrightarrow>
   heap (hoverVehicle delta v s) v = Some (MeshObj (setPosition
     ((position m)\<lparr>vec_y := vec_y (position m)
        + sin (real_of_int (dateSeq s (dateCalls s)) * 0.001) * delta\<rparr>) m))"
  by (simp add: hoverVehicle_def Date_now_def Let_def)

lemma plane_mesh_position:
  "\<exists>m. vehicleMesh ''plane'' s = Some m
     \<and> position m = \<lparr>vec_x = player_x s + 2, vec_y = player_y s + 1, vec_z = player_z s\<rparr>"
  by (simp add: vehicleMesh_def newMesh_def setPosition_def addChild_def Let_def)

lemma boat_mesh_position:
  "\<exists>m. vehicleMesh ''boat'' s = Some m
     \<and> position m = \<lparr>vec_x = player_x s + 2, vec_y = 0.25, vec_z = player_z s\<rparr>"
  by (simp add: vehicleMesh_def newMesh_def setPosition_def setRotation_def Let_def)

lemma plane_mesh_initial: "vehicleMesh ''plane'' initialWorld = Some planeMesh"
  by (simp add: vehicleMesh_def initialWorld_def planeMesh_def newMesh_def setPosition_def
      addChild_def Let_def)

lemma boat_mesh_initial: "vehicleMesh ''boat'' initialWorld = Some boatMesh"
  by (simp add: vehicleMesh_def initialWorld_def boatMesh_def newMesh_def setPosition_def
      setRotation_def Let_def)

lemma strandedWorld_eq:
  "buildVehicle ''plane'' initialWorld = Thrown strandedWorld
   \<and> strandedWorld = initialWorld\<lparr>scene := [AmbientLightNode, DirLightNode, PlayerNode, Ref 0],
        heap := (heap initialWorld)(0 \<mapsto> MeshObj planeMesh), nextRef := 1\<rparr>"
proof -
  have v: "vehicles initialWorld = None" by (simp add: initialWorld_def)
  have "buildVehicle ''plane'' initialWorld =
      Thrown (initialWorld\<lparr>scene := [AmbientLightNode, DirLightNode, PlayerNode, Ref 0],
        heap := (heap initialWorld)(0 \<mapsto> MeshObj planeMesh), nextRef := 1\<rparr>)"
    unfolding buildVehicle_uninitialised[OF v plane_mesh_initial] by (simp add: initialWorld_def)
  then show ?thesis by (simp add: strandedWorld_def worldOf_def)
qed

lemma loadedWorld_uninitialised:
  "keys loadedWorld = None \<and> vehicles loadedWorld = None \<and> playerStructures loadedWorld = []
   \<and> player_x loadedWorld = 0 \<and> player_y loadedWorld = 2 \<and> player_z loadedWorld = 0"
  using chunkFrame_updateChunks[of initialWorld]
  by (simp add: loadedWorld_def chunkFrame_def) (simp add: initialWorld_def)

text \<open>What the same calls do once \<open>keys\<close> and \<open>vehicles\<close> are initialised: movement
  leaves \<open>player.x\<close>, \<open>player.y\<close> and \<open>player.z\<close> alone, and \<open>buildVehicle\<close> records
  the position it computed from them.\<close>

lemma movementStep_player_fields:
  "player_x (movementStep inp s) = player_x s \<and> player_y (movementStep inp s) = player_y s
   \<and> player_z (movementStep inp s) = player_z s"
  by (cases "keys s")
     (simp_all add: movementStep_def holdKeys_def updatePlayer_def movePlayerMesh_def Let_def
        worldOf_def)

lemma movement_player_fields:
  "player_x (fold movementStep moves s) = player_x s
   \<and> player_y (fold movementStep moves s) = player_y s
   \<and> player_z (fold movementStep moves s) = player_z s"
  by (induction moves arbitrary: s) (simp_all add: movementStep_player_fields)

lemma recorded_position_initialised:
  assumes "vehicles s = Some vs" and "vehicleMesh vtype s = Some m"
  shows "map_option st_position
      (map_get (nextStructureKey s) (playerStructures (worldOf (buildVehicle vtype s))))
     = Some (position m)"
  by (simp add: buildVehicle_initialised[OF assms] map_get_map_set_same worldOf_def)

section \<open>A tick in which generation fails\<close>


lemma row_thrown [simp]: "loadRow_throwing fails cx cz zs dx (Thrown s) = Thrown s"
  by (induction zs) (simp_all add: loadRow_throwing_def then_do_def)

lemma rows_thrown [simp]: "fold (loadRow_throwing fails cx cz zs) xs (Thrown s) = Thrown s"
  by (induction xs) simp_all


















lemma firstChunkWorld_fields:
  "chunks firstChunkWorld = [(''-2_-2'', 0)]"
  "scene firstChunkWorld = [AmbientLightNode, DirLightNode, PlayerNode, Ref 0]"
  "nextRef firstChunkWorld = 1"
  "playerStructures firstChunkWorld = []"
  "loadedRadius firstChunkWorld = 2"
  by (simp_all add: firstChunkWorld_def createChunk_eq initialWorld_def)


section \<open>The registry invariant\<close>

text \<open>Every registry the program builds holds well-formed, distinct keys: the initial one
  is empty, and every call keeps the property.\<close>

lemma registryOk_iff:
  "registryOk s \<longleftrightarrow> (\<forall>k \<in> registryKeys s. wellFormedKey k) \<and> distinctKeys s"
  by (auto simp: registryOk_def registryKeys_def distinctKeys_def list_all_iff)




lemma registryOk_unloadChunk: "registryOk s \<Longrightarrow> registryOk (unloadChunk k s)"
  unfolding registryOk_iff registryKeys_unloadChunk
  by (auto simp: distinctKeys_unloadChunk)


lemma createChunk_changes_state: "createChunk cx cz k s \<noteq> s"
proof
  assume "createChunk cx cz k s = s"
  then have "nextRef (createChunk cx cz k s) = nextRef s" by simp
  then show False by (simp add: createChunk_eq)
qed

lemma unloadChunk_changes_registry:
  "k \<in> registryKeys s \<Longrightarrow> registryKeys (unloadChunk k s) \<noteq> registryKeys s"
  by (auto simp: registryKeys_unloadChunk)





section \<open>The claims\<close>



text \<open>
  C2. For every world position and every positive chunk size, the key \<open>chunkID\<close> builds
  from the position parses back, by splitting at \<open>_\<close> and reading the parts as numbers, to
  the chunk coordinate of the position, negative coordinates included.
\<close>

theorem chunk_key_round_trip:
  assumes "0 < chunkSize s"
  shows "parseChunkKey (chunkID s x z) = (Some \<lfloor>x / chunkSize s\<rfloor>, Some \<lfloor>z / chunkSize s\<rfloor>)"
  by (simp add: chunkID_def parseChunkKey_chunkKey)

theorem chunk_key_round_trip_witness:
  "0 < chunkSize initialWorld \<and> chunkID initialWorld (- 30) 260 = ''-1_5''
   \<and> parseChunkKey ''-1_5'' = (Some (- 1), Some 5)"
proof -
  have cs: "0 < chunkSize initialWorld" by (simp add: initialWorld_def)
  have id: "chunkID initialWorld (- 30) 260 = ''-1_5''"
    by (simp add: chunkID_def initialWorld_def chunkKey_def numberToString_def
        natToString.simps digitChar_def)
  have fl: "\<lfloor>(- 30 :: real) / chunkSize initialWorld\<rfloor> = - 1 \<and> \<lfloor>(260 :: real) / chunkSize initialWorld\<rfloor> = 5"
    by (simp add: initialWorld_def)
  show ?thesis using chunk_key_round_trip[OF cs, of "- 30" 260] cs id fl by simp
qed



text \<open>
  C4, as stated: \<open>createChunk\<close> does not itself insert the chunk into the registry.
  It does: on the empty registry of the initial state, \<open>createChunk(0, 0, "0_0")\<close>
  leaves the key \<open>0_0\<close> registered and the group added to the scene.
\<close>

theorem createChunk_registers_counterexample:
  "chunks initialWorld = [] \<and> chunks (createChunk 0 0 ''0_0'' initialWorld) = [(''0_0'', 0)]
   \<and> scene (createChunk 0 0 ''0_0'' initialWorld) \<noteq> scene initialWorld"
  by (simp add: createChunk_eq initialWorld_def)

text \<open>
  C4, amended: \<open>createChunk\<close> generates the 53 primitives of the chunk and itself adds
  the group to the scene and registers it under the given key. Beyond that it changes
  only the count of random numbers drawn: the player, the structures, the vehicles, the
  held keys, the configuration and the registry entries of other keys stay as they were.
\<close>

theorem createChunk_effects:
  "chunks (createChunk cx cz k s) = map_set k (nextRef s) (chunks s)
   \<and> scene (createChunk cx cz k s) = scene s @ [Ref (nextRef s)]
   \<and> heap (createChunk cx cz k s) =
       (heap s)(nextRef s \<mapsto> GroupObj (fst (generatePrimitives cx cz s)))
   \<and> length (fst (generatePrimitives cx cz s)) = 53
   \<and> nextRef (createChunk cx cz k s) = Suc (nextRef s)
   \<and> randomCalls (createChunk cx cz k s) = randomCalls s + 165
   \<and> chunkFrame s (createChunk cx cz k s)
   \<and> (\<forall>k'. k' \<noteq> k \<longrightarrow> map_get k' (chunks (createChunk cx cz k s)) = map_get k' (chunks s))"
  by (simp add: createChunk_eq generatePrimitives_length chunkFrame_def map_get_map_set_other)

theorem createChunk_effects_witness:
  "chunks (createChunk (- 2) (- 1) ''-2_-1'' firstChunkWorld) = [(''-2_-2'', 0), (''-2_-1'', 1)]
   \<and> scene (createChunk (- 2) (- 1) ''-2_-1'' firstChunkWorld)
        = [AmbientLightNode, DirLightNode, PlayerNode, Ref 0, Ref 1]
   \<and> playerStructures (createChunk (- 2) (- 1) ''-2_-1'' firstChunkWorld) = []
   \<and> ''-2_-2'' \<noteq> ''-2_-1''
   \<and> map_get ''-2_-2'' (chunks (createChunk (- 2) (- 1) ''-2_-1'' firstChunkWorld)) = Some 0"
  using createChunk_effects[of "- 2" "- 1" "''-2_-1''" firstChunkWorld]
  by (simp add: firstChunkWorld_fields chunkFrame_def map_get_def)

text \<open>
  C5, as stated: every generated primitive is mapped back to \<open>(cx, cz)\<close> by the
  coordinate mapping. With the first random number below one half the first terrain
  block of chunk \<open>(0, 0)\<close> lies at \<open>x = -25\<close>, which the mapping sends to chunk \<open>-1\<close>.
\<close>

theorem footprint_counterexample:
  "\<not> list_all (inFootprint initialWorld 0 0)
       (chunkPrimitives (createChunk 0 0 ''0_0'' initialWorld) ''0_0'')"
proof -
  obtain rest where
    "fst (generatePrimitives 0 0 initialWorld) = fst (terrainBlock 0 0 ([], initialWorld)) @ rest"
    using generatePrimitives_first by blast
  moreover have "\<not> list_all (inFootprint initialWorld 0 0) (fst (terrainBlock 0 0 ([], initialWorld)))"
    by (simp add: terrainBlock_eq inFootprint_def chunkCoordinateOf_def initialWorld_def
        setPosition_def newMesh_def)
  ultimately show ?thesis by (simp add: chunkPrimitives_createChunk)
qed

text \<open>
  C5, amended: with random numbers in \<open>[0, 1)\<close> and a positive chunk size, each of the
  53 primitives of chunk \<open>(cx, cz)\<close> lies in the square of side \<open>chunkSize\<close> centred at
  \<open>(cx * chunkSize, cz * chunkSize)\<close>, so the coordinate mapping sends it to \<open>cx\<close> or
  \<open>cx - 1\<close> and to \<open>cz\<close> or \<open>cz - 1\<close>; and its base is at \<open>y = 0\<close>, its vertical
  centre being half its height. The same holds of the 105 primitives the loops of the
  other copy of the program generate.
\<close>

theorem primitives_within_centred_square:
  assumes "randomsInUnitInterval s" and "0 < chunkSize s"
  shows "list_all (wellPlaced s cx cz) (chunkPrimitives (createChunk cx cz k s) k)
     \<and> length (chunkPrimitives (createChunk cx cz k s) k) = 53
     \<and> list_all (wellPlaced s cx cz) (fst (generateWith 100 5 cx cz s))"
  using generatePrimitives_well[OF assms, of cx cz] generateWith_well[OF assms, of cx cz 100 5]
  by (simp add: chunkPrimitives_createChunk generatePrimitives_length)

theorem primitives_within_centred_square_witness:
  "randomsInUnitInterval initialWorld \<and> 0 < chunkSize initialWorld
   \<and> list_all (wellPlaced initialWorld 0 0)
       (chunkPrimitives (createChunk 0 0 ''0_0'' initialWorld) ''0_0'')
   \<and> length (chunkPrimitives (createChunk 0 0 ''0_0'' initialWorld) ''0_0'') = 53"
proof -
  have cs: "0 < chunkSize initialWorld" by (simp add: initialWorld_def)
  show ?thesis
    using primitives_within_centred_square[OF initial_randoms cs, of 0 0 "''0_0''"]
      initial_randoms cs by simp
qed




text \<open>
  C7. \<open>saveStructure\<close> stores, under a key of its own, the geometry, material, position
  and rotation the mesh has when it is recorded, and leaves every entry recorded earlier
  as it is. Whatever calls of \<open>animateVehicles\<close>, \<open>updatePlayer\<close>, \<open>updateChunks\<close> and
  \<open>unloadChunk\<close> follow, the entry under the structure's key holds these values. When
  the hover animation then moves the recorded mesh, the mesh in the store has the new
  height and the entry has the height of record time.
\<close>

theorem saveStructure_snapshot_independent:
  "map_get (nextStructureKey s) (playerStructures (fold run calls (saveStructure m s)))
     = Some \<lparr>st_geometry = geometry m, st_material = material m,
              st_position = position m, st_rotation = rotation m\<rparr>
   \<and> (\<forall>k. k \<noteq> nextStructureKey s \<longrightarrow>
          map_get k (playerStructures (saveStructure m s)) = map_get k (playerStructures s))
   \<and> (heap s r = Some (MeshObj m) \<longrightarrow>
        heap (hoverVehicle delta r (saveStructure m s)) r
          = Some (MeshObj (setPosition
              ((position m)\<lparr>vec_y := vec_y (position m)
                 + sin (real_of_int (dateSeq s (Suc (dateCalls s))) * 0.001) * delta\<rparr>) m))
        \<and> map_get (nextStructureKey s)
            (playerStructures (hoverVehicle delta r (saveStructure m s)))
          = Some \<lparr>st_geometry = geometry m, st_material = material m,
                   st_position = position m, st_rotation = rotation m\<rparr>)"
proof (intro conjI allI impI)
  show "map_get (nextStructureKey s) (playerStructures (fold run calls (saveStructure m s)))
     = Some \<lparr>st_geometry = geometry m, st_material = material m,
              st_position = position m, st_rotation = rotation m\<rparr>"
    by (simp add: playerStructures_calls saveStructure_eq map_get_map_set_same)
  show "map_get k (playerStructures (saveStructure m s)) = map_get k (playerStructures s)"
    if "k \<noteq> nextStructureKey s" for k
    using that by (simp add: saveStructure_eq map_get_map_set_other)
  show "heap (hoverVehicle delta r (saveStructure m s)) r
      = Some (MeshObj (setPosition
          ((position m)\<lparr>vec_y := vec_y (position m)
             + sin (real_of_int (dateSeq s (Suc (dateCalls s))) * 0.001) * delta\<rparr>) m))"
    if "heap s r = Some (MeshObj m)"
    using that hover_moves_live_mesh[of "saveStructure m s" r m delta]
    by (simp add: saveStructure_eq)
  show "map_get (nextStructureKey s) (playerStructures (hoverVehicle delta r (saveStructure m s)))
      = Some \<lparr>st_geometry = geometry m, st_material = material m,
               st_position = position m, st_rotation = rotation m\<rparr>"
    by (simp add: saveStructure_eq map_get_map_set_same)
qed

theorem saveStructure_snapshot_independent_witness:
  "heap tickingWorld 0 = Some (MeshObj planeMesh)
   \<and> nextStructureKey tickingWorld = (0, 0)
   \<and> map_get (0, 0)
        (playerStructures (fold run [AnimateVehicles 1, UpdateChunks, UnloadChunk ''0_0'']
           (saveStructure planeMesh tickingWorld)))
      = Some \<lparr>st_geometry = BoxGeometry 2 0.4 4,
               st_material = \<lparr>color = 16776960, flatShading = False\<rparr>,
               st_position = \<lparr>vec_x = 2, vec_y = 3, vec_z = 0\<rparr>,
               st_rotation = \<lparr>vec_x = 0, vec_y = 0, vec_z = 0\<rparr>\<rparr>
   \<and> heap (hoverVehicle 1 0 (saveStructure planeMesh tickingWorld)) 0
      = Some (MeshObj (setPosition \<lparr>vec_x = 2, vec_y = 3 + sin 1, vec_z = 0\<rparr> planeMesh))
   \<and> 3 + sin (1 :: real) \<noteq> 3
   \<and> map_get (0, 0) (playerStructures (hoverVehicle 1 0 (saveStructure planeMesh tickingWorld)))
      = Some \<lparr>st_geometry = BoxGeometry 2 0.4 4,
               st_material = \<lparr>color = 16776960, flatShading = False\<rparr>,
               st_position = \<lparr>vec_x = 2, vec_y = 3, vec_z = 0\<rparr>,
               st_rotation = \<lparr>vec_x = 0, vec_y = 0, vec_z = 0\<rparr>\<rparr>
   \<and> nextStructureKey (saveStructure planeMesh tickingWorld) = (1000, 1 / 4)
   \<and> map_get (0, 0)
        (playerStructures (saveStructure boatMesh (saveStructure planeMesh tickingWorld)))
      = Some \<lparr>st_geometry = BoxGeometry 2 0.4 4,
               st_material = \<lparr>color = 16776960, flatShading = False\<rparr>,
               st_position = \<lparr>vec_x = 2, vec_y = 3, vec_z = 0\<rparr>,
               st_rotation = \<lparr>vec_x = 0, vec_y = 0, vec_z = 0\<rparr>\<rparr>"
proof -
  have h: "heap tickingWorld 0 = Some (MeshObj planeMesh)"
    by (simp add: tickingWorld_def strandedWorld_eq)
  have k: "nextStructureKey tickingWorld = (0, 0)"
    by (simp add: nextStructureKey_def tickingWorld_def strandedWorld_eq)
       (simp add: initialWorld_def)
  have d: "dateSeq tickingWorld (Suc (dateCalls tickingWorld)) = 1000"
    by (simp add: tickingWorld_def strandedWorld_eq) (simp add: initialWorld_def)
  have k2: "nextStructureKey (saveStructure planeMesh tickingWorld) = (1000, 1 / 4)"
    by (simp add: nextStructureKey_def saveStructure_eq tickingWorld_def strandedWorld_eq)
       (simp add: initialWorld_def)
  have m: "geometry planeMesh = BoxGeometry 2 0.4 4
      \<and> material planeMesh = \<lparr>color = 16776960, flatShading = False\<rparr>
      \<and> position planeMesh = \<lparr>vec_x = 2, vec_y = 3, vec_z = 0\<rparr>
      \<and> rotation planeMesh = \<lparr>vec_x = 0, vec_y = 0, vec_z = 0\<rparr>"
    by (simp add: planeMesh_def)
  have s1: "0 < sin (1 :: real)" using pi_ge_two by (intro sin_gt_zero) simp_all
  have first: "map_get (0, 0) (playerStructures (saveStructure planeMesh tickingWorld))
      = Some \<lparr>st_geometry = BoxGeometry 2 0.4 4,
               st_material = \<lparr>color = 16776960, flatShading = False\<rparr>,
               st_position = \<lparr>vec_x = 2, vec_y = 3, vec_z = 0\<rparr>,
               st_rotation = \<lparr>vec_x = 0, vec_y = 0, vec_z = 0\<rparr>\<rparr>"
    using saveStructure_snapshot_independent[of tickingWorld "[]" planeMesh 0 1]
    by (simp add: k m)
  have second: "map_get (0, 0)
        (playerStructures (saveStructure boatMesh (saveStructure planeMesh tickingWorld)))
      = map_get (0, 0) (playerStructures (saveStructure planeMesh tickingWorld))"
    using saveStructure_snapshot_independent[of "saveStructure planeMesh tickingWorld" "[]"
        boatMesh 0 1]
    by (simp add: k2)
  show ?thesis
    using saveStructure_snapshot_independent[of tickingWorld
        "[AnimateVehicles 1, UpdateChunks, UnloadChunk ''0_0'']" planeMesh 0 1]
      h s1 first second
    by (simp add: k k2 d m)
qed

text \<open>
  C8. The chunk manager never removes or changes a structure: after any sequence of
  calls of \<open>updateChunks\<close> and \<open>unloadChunk\<close> (and of player movement and vehicle
  animation between them) the structure registry is what it was, so every structure
  present before is present, unmodified, afterwards. \<open>updateChunks\<close> and
  \<open>unloadChunk\<close> change the registry, the scene, the store and the count of random
  numbers at most, and \<open>unloadChunk\<close> not even the store.
\<close>

theorem structures_survive_chunk_calls:
  "playerStructures (fold run calls s) = playerStructures s
   \<and> (map_get sid (playerStructures s) = Some st \<longrightarrow>
        map_get sid (playerStructures (fold run calls s)) = Some st)
   \<and> chunkFrame s (updateChunks s) \<and> chunkFrame s (unloadChunk k s)
   \<and> heap (unloadChunk k s) = heap s"
  by (simp add: playerStructures_calls chunkFrame_updateChunks chunkFrame_unloadChunk)
     (simp add: unloadChunk_def Let_def split: option.splits)

theorem structures_survive_chunk_calls_witness:
  "map_get (1700000000000, 0) (playerStructures (saveStructure boatMesh initialWorld))
     = Some \<lparr>st_geometry = CylinderGeometry 1 1 0.5 8,
               st_material = \<lparr>color = 255, flatShading = False\<rparr>,
               st_position = \<lparr>vec_x = 2, vec_y = 0.25, vec_z = 0\<rparr>,
               st_rotation = \<lparr>vec_x = 0, vec_y = 0, vec_z = pi / 2\<rparr>\<rparr>
   \<and> map_get (1700000000000, 0)
        (playerStructures (fold run [UpdateChunks, UnloadChunk ''0_0'', UpdateChunks]
           (saveStructure boatMesh initialWorld)))
     = Some \<lparr>st_geometry = CylinderGeometry 1 1 0.5 8,
               st_material = \<lparr>color = 255, flatShading = False\<rparr>,
               st_position = \<lparr>vec_x = 2, vec_y = 0.25, vec_z = 0\<rparr>,
               st_rotation = \<lparr>vec_x = 0, vec_y = 0, vec_z = pi / 2\<rparr>\<rparr>"
proof -
  have b: "map_get (1700000000000, 0) (playerStructures (saveStructure boatMesh initialWorld))
     = Some \<lparr>st_geometry = CylinderGeometry 1 1 0.5 8,
               st_material = \<lparr>color = 255, flatShading = False\<rparr>,
               st_position = \<lparr>vec_x = 2, vec_y = 0.25, vec_z = 0\<rparr>,
               st_rotation = \<lparr>vec_x = 0, vec_y = 0, vec_z = pi / 2\<rparr>\<rparr>"
    by (simp add: saveStructure_eq nextStructureKey_def boatMesh_def map_get_def)
       (simp add: initialWorld_def)
  show ?thesis
    using structures_survive_chunk_calls[of "[UpdateChunks, UnloadChunk ''0_0'', UpdateChunks]"
        "saveStructure boatMesh initialWorld" "(1700000000000, 0)"] b
    by simp
qed

text \<open>
  C9. \<open>buildVehicle\<close> with a type other than \<open>plane\<close> and \<open>boat\<close> changes nothing: no
  mesh is created, the call returns, and the scene, the vehicles and the structure
  registry are as before.
\<close>

theorem buildVehicle_unknown_type:
  assumes "vtype \<noteq> ''plane''" and "vtype \<noteq> ''boat''"
  shows "buildVehicle vtype s = Completed s"
  using assms by (simp add: buildVehicle_def vehicleMesh_def)

theorem buildVehicle_unknown_type_witness:
  "''car'' \<noteq> ''plane'' \<and> ''car'' \<noteq> ''boat''
   \<and> buildVehicle ''car'' loadedWorld = Completed loadedWorld"
  using buildVehicle_unknown_type[of "''car''" loadedWorld] by simp

text \<open>
  C10. In the program as it loads no spawn position is ever recorded. \<open>init(); animate();\<close>
  run at lines 13 and 14, before the declarations of \<open>keys\<close> (line 54) and \<open>vehicles\<close>
  (line 63) are evaluated, and \<open>animate\<close> throws in \<open>updatePlayer\<close>, which ends the
  module body: both stay uninitialised. From then on every frame throws in
  \<open>updatePlayer\<close> before the player's mesh is moved, the key handler throws before it
  calls \<open>buildVehicle\<close>, and \<open>buildVehicle\<close> for a plane or a boat throws at
  \<open>vehicles.push\<close>, after the mesh has been added to the scene and before
  \<open>saveStructure\<close>: the structure registry stays empty.
\<close>

theorem loaded_program_records_no_spawn_position:
  "keys loadedWorld = None \<and> vehicles loadedWorld = None
   \<and> updatePlayer (1 / 60) loadedWorld = Thrown loadedWorld
   \<and> animate (1 / 60) loadedWorld = Thrown loadedWorld
   \<and> handleKeys ''p'' True loadedWorld = Thrown loadedWorld
   \<and> handleKeys ''b'' True loadedWorld = Thrown loadedWorld
   \<and> threw (buildVehicle ''plane'' loadedWorld)
   \<and> playerStructures (worldOf (buildVehicle ''plane'' loadedWorld)) = []
   \<and> scene (worldOf (buildVehicle ''plane'' loadedWorld))
        = scene loadedWorld @ [Ref (nextRef loadedWorld)]
   \<and> threw (buildVehicle ''boat'' loadedWorld)
   \<and> playerStructures (worldOf (buildVehicle ''boat'' loadedWorld)) = []
   \<and> scene (worldOf (buildVehicle ''boat'' loadedWorld))
        = scene loadedWorld @ [Ref (nextRef loadedWorld)]"
proof -
  note u = loadedWorld_uninitialised
  obtain p where p: "vehicleMesh ''plane'' loadedWorld = Some p"
    using plane_mesh_position[of loadedWorld] by blast
  obtain b where b: "vehicleMesh ''boat'' loadedWorld = Some b"
    using boat_mesh_position[of loadedWorld] by blast
  show ?thesis
    using u
    by (simp add: updatePlayer_uninitialised animate_uninitialised handleKeys_uninitialised
        buildVehicle_uninitialised[OF _ p] buildVehicle_uninitialised[OF _ b]
        threw_def worldOf_def)
qed

end
